theory Spec2Isabelle
  imports Complex_Main
begin

section \<open>Data model\<close>

text \<open>
  The module \<open>metrics.py\<close> computes return statistics over a polars \<open>DataFrame\<close>.
  A frame is an ordered list of named columns; a column (a polars \<open>Series\<close>) is a
  list of cells of one dtype, each cell either a value or null (\<open>None\<close>).

  Float64 cells are modelled as real numbers: arithmetic is exact, and the IEEE values
  infinity and NaN have no counterpart. A quotient whose divisor is zero is infinite or
  NaN in polars, so the claims proved below say nothing about the value of such a quotient.
\<close>

datatype AggregationType = DAY | WEEKLY | MONTHLY | QUARTERLY | YEARLY

abbreviation DATE :: string where "DATE \<equiv> ''date''"
abbreviation CLOSE :: string where "CLOSE \<equiv> ''close''"
abbreviation RETURN :: string where "RETURN \<equiv> ''return''"
abbreviation CUMULATIVE_RETURN :: string where "CUMULATIVE_RETURN \<equiv> ''cumulative_return''"

datatype date = YMD (year: nat) (month: nat) (day: nat)

datatype dtype = Float64 | Int64 | UInt32 | Date | Datetime | Utf8

datatype series =
    FloatS "real option list"
  | IntS "int option list"
  | UIntS "nat option list"
  | DateS "date option list"
  | DatetimeS "(date \<times> nat) option list"
  | StrS "string option list"

type_synonym dataframe = "(string \<times> series) list"

text \<open>What Python receives when it reads one cell of a frame or a series.\<close>

datatype pyval =
    PyNone
  | PyFloat real
  | PyInt int
  | PyStr string
  | PyDate date
  | PyDatetime date nat
  | PyComplex

text \<open>
  The exceptions the module can raise: polars' \<open>ColumnNotFoundError\<close>,
  \<open>DuplicateError\<close> and \<open>InvalidOperationError\<close>, the \<open>ValueError\<close> of
  \<open>annualization_faactor\<close> and \<open>aggregate_returns\<close> ("Aggregation type ... not
  supported"), the \<open>ValueError\<close> of \<open>DataFrame.item\<close> on a frame that is not
  1 x 1, and Python's \<open>TypeError\<close>, \<open>ZeroDivisionError\<close> and \<open>IndexError\<close>.
\<close>

datatype error =
    ColumnNotFoundError string
  | DuplicateError
  | InvalidOperationError
  | ValueError_not_supported AggregationType
  | ValueError_item
  | TypeError
  | ZeroDivisionError
  | IndexError

fun bnd :: "error + 'a \<Rightarrow> ('a \<Rightarrow> error + 'b) \<Rightarrow> error + 'b" where
  "bnd (Inl e) f = Inl e"
| "bnd (Inr x) f = f x"

section \<open>Series\<close>

fun dtype_of :: "series \<Rightarrow> dtype" where
  "dtype_of (FloatS xs) = Float64"
| "dtype_of (IntS xs) = Int64"
| "dtype_of (UIntS xs) = UInt32"
| "dtype_of (DateS xs) = Date"
| "dtype_of (DatetimeS xs) = Datetime"
| "dtype_of (StrS xs) = Utf8"

fun len :: "series \<Rightarrow> nat" where
  "len (FloatS xs) = length xs"
| "len (IntS xs) = length xs"
| "len (UIntS xs) = length xs"
| "len (DateS xs) = length xs"
| "len (DatetimeS xs) = length xs"
| "len (StrS xs) = length xs"

fun drop_nulls :: "'a option list \<Rightarrow> 'a list" where
  "drop_nulls [] = []"
| "drop_nulls (None # xs) = drop_nulls xs"
| "drop_nulls (Some x # xs) = x # drop_nulls xs"

text \<open>\<open>Series.count\<close>: the number of cells that are not null.\<close>

fun count_s :: "series \<Rightarrow> nat" where
  "count_s (FloatS xs) = length (drop_nulls xs)"
| "count_s (IntS xs) = length (drop_nulls xs)"
| "count_s (UIntS xs) = length (drop_nulls xs)"
| "count_s (DateS xs) = length (drop_nulls xs)"
| "count_s (DatetimeS xs) = length (drop_nulls xs)"
| "count_s (StrS xs) = length (drop_nulls xs)"

fun cell :: "('a \<Rightarrow> pyval) \<Rightarrow> 'a option list \<Rightarrow> nat \<Rightarrow> error + pyval" where
  "cell f xs i =
     (if i < length xs then Inr (case xs ! i of None \<Rightarrow> PyNone | Some v \<Rightarrow> f v)
      else Inl IndexError)"

text \<open>\<open>s[i]\<close> for a non-negative index.\<close>

fun series_get :: "series \<Rightarrow> nat \<Rightarrow> error + pyval" where
  "series_get (FloatS xs) i = cell PyFloat xs i"
| "series_get (IntS xs) i = cell PyInt xs i"
| "series_get (UIntS xs) i = cell (\<lambda>n. PyInt (int n)) xs i"
| "series_get (DateS xs) i = cell PyDate xs i"
| "series_get (DatetimeS xs) i = cell (\<lambda>(d, t). PyDatetime d t) xs i"
| "series_get (StrS xs) i = cell PyStr xs i"

text \<open>
  The arithmetic of the module is modelled on Float64 columns. An arithmetic expression
  over a column of another dtype is rendered as \<open>InvalidOperationError\<close>, which is what
  polars raises for temporal and string operands; integer operands, on which polars would
  compute, are not modelled further.
\<close>

fun as_float :: "series \<Rightarrow> error + real option list" where
  "as_float (FloatS xs) = Inr xs"
| "as_float s = Inl InvalidOperationError"

text \<open>\<open>expr.shift(1)\<close>: every cell moves one row down, the first row becomes null.\<close>

definition shift1 :: "'a option list \<Rightarrow> 'a option list" where
  "shift1 xs = take (length xs) (None # xs)"

text \<open>Element-wise operators; a null operand gives a null cell.\<close>

fun div_cell :: "real option \<Rightarrow> real option \<Rightarrow> real option" where
  "div_cell (Some a) (Some b) = Some (a / b)"
| "div_cell a b = None"

definition div_s :: "real option list \<Rightarrow> real option list \<Rightarrow> real option list" where
  "div_s xs ys = map2 div_cell xs ys"

definition sub_lit :: "real option list \<Rightarrow> real \<Rightarrow> real option list" where
  "sub_lit xs c = map (map_option (\<lambda>x. x - c)) xs"

definition add_lit :: "real \<Rightarrow> real option list \<Rightarrow> real option list" where
  "add_lit c xs = map (map_option (\<lambda>x. c + x)) xs"

definition lt_lit :: "real option list \<Rightarrow> real \<Rightarrow> bool option list" where
  "lt_lit xs c = map (map_option (\<lambda>x. x < c)) xs"

text \<open>\<open>expr.filter(mask)\<close> keeps the rows whose mask is true; a null mask drops the row.\<close>

definition filter_s :: "'a option list \<Rightarrow> bool option list \<Rightarrow> 'a option list" where
  "filter_s xs keep = map fst (filter (\<lambda>(x, m). m = Some True) (zip xs keep))"

text \<open>
  Cumulative aggregates (\<open>cum_prod\<close>, \<open>cum_max\<close>): a scan that carries the aggregate of
  the values seen so far; a null cell stays null and leaves the carried state alone.
\<close>

fun cum_agg :: "(real \<Rightarrow> real \<Rightarrow> real) \<Rightarrow> real option \<Rightarrow> real option list \<Rightarrow> real option list" where
  "cum_agg f st [] = []"
| "cum_agg f st (None # xs) = None # cum_agg f st xs"
| "cum_agg f None (Some x # xs) = Some x # cum_agg f (Some x) xs"
| "cum_agg f (Some a) (Some x # xs) = Some (f a x) # cum_agg f (Some (f a x)) xs"

definition cum_prod :: "real option list \<Rightarrow> real option list" where
  "cum_prod xs = cum_agg (\<lambda>a x. a * x) None xs"

definition cum_max :: "real option list \<Rightarrow> real option list" where
  "cum_max xs = cum_agg max None xs"

text \<open>Aggregations skip nulls. The sum of no value is 0, the product of no value is 1,
  the maximum of no value is null, and the sample standard deviation (one delta degree of
  freedom) of fewer than two values is null.\<close>

definition sum_agg :: "real option list \<Rightarrow> real option" where
  "sum_agg xs = Some (sum_list (drop_nulls xs))"

definition product_agg :: "real option list \<Rightarrow> real option" where
  "product_agg xs = Some (prod_list (drop_nulls xs))"

definition max_agg :: "real option list \<Rightarrow> real option" where
  "max_agg xs = (case drop_nulls xs of [] \<Rightarrow> None | y # ys \<Rightarrow> Some (fold max ys y))"

definition mean :: "real list \<Rightarrow> real" where
  "mean ys = sum_list ys / real (length ys)"

definition std_agg :: "real option list \<Rightarrow> real option" where
  "std_agg xs =
     (let ys = drop_nulls xs in
      if length ys \<le> 1 then None
      else Some (sqrt (sum_list (map (\<lambda>y. (y - mean ys)\<^sup>2) ys) / real (length ys - 1))))"





section \<open>Frames\<close>



definition get_column :: "dataframe \<Rightarrow> string \<Rightarrow> error + series" where
  "get_column df name =
     (case map_of df name of None \<Rightarrow> Inl (ColumnNotFoundError name) | Some s \<Rightarrow> Inr s)"

definition get_float :: "dataframe \<Rightarrow> string \<Rightarrow> error + real option list" where
  "get_float df name = bnd (get_column df name) as_float"

text \<open>The frame a \<open>select\<close> builds from its output columns: their names must differ.\<close>

definition new_frame :: "(string \<times> series) list \<Rightarrow> error + dataframe" where
  "new_frame cols = (if distinct (map fst cols) then Inr cols else Inl DuplicateError)"

text \<open>\<open>df.select(names)\<close>.\<close>

fun lookup_all :: "dataframe \<Rightarrow> string list \<Rightarrow> error + (string \<times> series) list" where
  "lookup_all df [] = Inr []"
| "lookup_all df (n # ns) =
     bnd (get_column df n) (\<lambda>s. bnd (lookup_all df ns) (\<lambda>rest. Inr ((n, s) # rest)))"

definition select :: "dataframe \<Rightarrow> string list \<Rightarrow> error + dataframe" where
  "select df names = bnd (lookup_all df names) new_frame"

text \<open>\<open>df.with_columns(...)\<close>: a column whose name the frame has replaces it in place,
  any other is appended. Every column the module adds is computed from the frame it is
  added to, so the heights agree.\<close>

fun with_column :: "dataframe \<Rightarrow> string \<times> series \<Rightarrow> dataframe" where
  "with_column [] c = [c]"
| "with_column ((n, s) # df) c =
     (if n = fst c then (n, snd c) # df else (n, s) # with_column df c)"

definition with_columns :: "dataframe \<Rightarrow> (string \<times> series) list \<Rightarrow> dataframe" where
  "with_columns df cols = foldl with_column df cols"

text \<open>\<open>df.count()\<close>: one row holding, per column, the number of non-null cells.\<close>

definition count :: "dataframe \<Rightarrow> dataframe" where
  "count df = map (\<lambda>(n, s). (n, UIntS [Some (count_s s)])) df"

text \<open>\<open>df.item()\<close>: the single cell of a 1 x 1 frame.\<close>

fun item :: "dataframe \<Rightarrow> error + pyval" where
  "item [(n, s)] = (if len s = 1 then series_get s 0 else Inl ValueError_item)"
| "item df = Inl ValueError_item"


section \<open>Python arithmetic on the scalars read back from polars\<close>

fun py_num :: "pyval \<Rightarrow> real option" where
  "py_num (PyFloat x) = Some x"
| "py_num (PyInt i) = Some (real_of_int i)"
| "py_num v = None"

fun py_truediv :: "pyval \<Rightarrow> pyval \<Rightarrow> error + pyval" where
  "py_truediv a b =
     (case (py_num a, py_num b) of
        (Some x, Some y) \<Rightarrow> if y = 0 then Inl ZeroDivisionError else Inr (PyFloat (x / y))
      | _ \<Rightarrow> Inl TypeError)"

fun py_mul :: "pyval \<Rightarrow> pyval \<Rightarrow> error + pyval" where
  "py_mul (PyInt i) (PyInt j) = Inr (PyInt (i * j))"
| "py_mul a b =
     (case (py_num a, py_num b) of
        (Some x, Some y) \<Rightarrow> Inr (PyFloat (x * y))
      | _ \<Rightarrow> Inl TypeError)"

fun py_sub :: "pyval \<Rightarrow> pyval \<Rightarrow> error + pyval" where
  "py_sub (PyInt i) (PyInt j) = Inr (PyInt (i - j))"
| "py_sub PyComplex b = (if b = PyComplex \<or> py_num b \<noteq> None then Inr PyComplex else Inl TypeError)"
| "py_sub a b =
     (case (py_num a, py_num b) of
        (Some x, Some y) \<Rightarrow> Inr (PyFloat (x - y))
      | _ \<Rightarrow> Inl TypeError)"

text \<open>\<open>a ** b\<close> with a float exponent: a zero base with a negative exponent raises, a
  negative base with a fractional exponent gives a complex number (not tracked further).\<close>

fun py_pow :: "pyval \<Rightarrow> pyval \<Rightarrow> error + pyval" where
  "py_pow a b =
     (case (py_num a, py_num b) of
        (Some x, Some y) \<Rightarrow>
          if x = 0 then (if y < 0 then Inl ZeroDivisionError
                         else Inr (PyFloat (if y = 0 then 1 else 0)))
          else if 0 < x then Inr (PyFloat (x powr y))
          else if y = of_int \<lfloor>y\<rfloor> then Inr (PyFloat (x powi \<lfloor>y\<rfloor>))
          else Inr PyComplex
      | _ \<Rightarrow> Inl TypeError)"

section \<open>The class \<open>Metrics\<close>\<close>

text \<open>The object holds one frame, \<open>self.data\<close>; it is the first argument below.\<close>

definition numeric_columns :: "dataframe \<Rightarrow> string list" where
  "numeric_columns data = map fst (filter (\<lambda>(col, s). dtype_of s = Float64) data)"

definition date_column :: "dataframe \<Rightarrow> string list" where
  "date_column data =
     map fst (filter (\<lambda>(col, s). dtype_of s = Date \<or> dtype_of s = Datetime) data)"

text \<open>The final \<open>else: raise ValueError\<close> of the source is unreachable for a member of the
  enumeration, so the function is total on \<open>AggregationType\<close>.\<close>

fun annualization_faactor :: "AggregationType \<Rightarrow> int" where
  "annualization_faactor DAY = 252"
| "annualization_faactor WEEKLY = 52"
| "annualization_faactor MONTHLY = 12"
| "annualization_faactor QUARTERLY = 4"
| "annualization_faactor YEARLY = 1"

definition simple_returns :: "dataframe \<Rightarrow> error + dataframe" where
  "simple_returns data =
     bnd (select data (numeric_columns data)) (\<lambda>numeric_df.
     bnd (get_float numeric_df CLOSE) (\<lambda>close.
     bnd (new_frame (numeric_df @
            [(RETURN, FloatS (sub_lit (div_s close (shift1 close)) 1))])) (\<lambda>returns.
     bnd (select data [DATE]) (\<lambda>dates.
     Inr (with_columns dates returns)))))"

definition cumulative_returns :: "dataframe \<Rightarrow> error + dataframe" where
  "cumulative_returns simple_returns_df =
     bnd (get_column simple_returns_df DATE) (\<lambda>d.
     bnd (get_column simple_returns_df RETURN) (\<lambda>r.
     bnd (get_float simple_returns_df RETURN) (\<lambda>rf.
     new_frame [(DATE, d), (RETURN, r),
                (CUMULATIVE_RETURN, FloatS (cum_prod (add_lit 1 rf)))])))"

definition cumulative_return_final :: "dataframe \<Rightarrow> error + pyval" where
  "cumulative_return_final cumulative_returns_df =
     bnd (get_float cumulative_returns_df CUMULATIVE_RETURN) (\<lambda>c.
     bnd (new_frame [(''cumulative_return_final'', FloatS [product_agg (add_lit 1 c)])]) (\<lambda>result.
     bnd (get_column result CUMULATIVE_RETURN) (\<lambda>s. series_get s 0)))"



definition max_drawdown :: "dataframe \<Rightarrow> error + pyval" where
  "max_drawdown simple_returns_df =
     bnd (cumulative_returns simple_returns_df) (\<lambda>cumulative_returns_df.
     bnd (get_float cumulative_returns_df ''cumulative_return'') (\<lambda>c.
     let df1 = with_column cumulative_returns_df (''max_return'', FloatS (cum_max c)) in
     bnd (get_float df1 ''cumulative_return'') (\<lambda>c1.
     bnd (get_float df1 ''max_return'') (\<lambda>m.
     let df2 = with_column df1 (''drawdown'', FloatS (sub_lit (div_s c1 m) 1)) in
     bnd (get_float df2 ''drawdown'') (\<lambda>d.
     bnd (new_frame [(''max_drawdown'', FloatS [max_agg d])]) item)))))"

definition compound_annual_growth_rate :: "dataframe \<Rightarrow> AggregationType \<Rightarrow> error + pyval" where
  "compound_annual_growth_rate simple_returns_df period =
     (let ann_factor = annualization_faactor period in
      bnd (item (count simple_returns_df)) (\<lambda>n.
      bnd (py_truediv n (PyInt ann_factor)) (\<lambda>num_years.
      bnd (bnd (cumulative_returns simple_returns_df) cumulative_return_final) (\<lambda>ending_value.
      bnd (py_truediv (PyInt 1) num_years) (\<lambda>e.
      bnd (py_pow ending_value e) (\<lambda>p. py_sub p (PyInt 1)))))))"

definition annual_volatility :: "dataframe \<Rightarrow> AggregationType \<Rightarrow> error + pyval" where
  "annual_volatility simple_returns_df period =
     (let ann_factor = annualization_faactor period in
      bnd (get_float simple_returns_df RETURN) (\<lambda>r.
      bnd (new_frame [(''annual_volatility'', FloatS [std_agg r])]) (\<lambda>df.
      bnd (get_column df ''annual_volatility'') (\<lambda>s.
      bnd (series_get s 0) (\<lambda>v.
      py_mul v (PyFloat (sqrt (real_of_int ann_factor))))))))"

definition omega_ratio :: "dataframe \<Rightarrow> real \<Rightarrow> AggregationType \<Rightarrow> error + pyval" where
  "omega_ratio simple_returns_df risk_free_rate period =
     (let ann_factor = annualization_faactor period in
      bnd (get_float simple_returns_df RETURN) (\<lambda>r.
      bnd (new_frame [(''omega_ratio'',
             FloatS [sum_agg (filter_s (sub_lit r risk_free_rate) (lt_lit r risk_free_rate))])]) (\<lambda>df.
      bnd (get_column df ''omega_ratio'') (\<lambda>s.
      bnd (series_get s 0) (\<lambda>v.
      bnd (py_truediv v (PyInt ann_factor)) (\<lambda>q.
      bnd (annual_volatility simple_returns_df period) (\<lambda>vol.
      py_truediv q vol)))))))"

definition sharpe_ratio :: "dataframe \<Rightarrow> real \<Rightarrow> AggregationType \<Rightarrow> error + pyval" where
  "sharpe_ratio simple_returns_df risk_free_rate period =
     (let ann_factor = annualization_faactor period in
      bnd (get_float simple_returns_df ''simple_return'') (\<lambda>r.
      bnd (new_frame [(''excess_return'', FloatS [sum_agg (sub_lit r risk_free_rate)])]) (\<lambda>df.
      bnd (get_column df ''excess_return'') (\<lambda>s.
      bnd (series_get s 0) (\<lambda>v.
      bnd (py_truediv v (PyInt ann_factor)) (\<lambda>q.
      bnd (annual_volatility simple_returns_df period) (\<lambda>vol.
      py_truediv q vol)))))))"

section \<open>Well-formed inputs and reference data\<close>




text \<open>The scenario "prices = [100, 110, 121]" on three dates, the same prices held as
  integers, and the frames the module derives from the scenario.\<close>

definition scenario_prices :: dataframe where
  "scenario_prices =
     [(DATE, DateS [Some (YMD 2024 1 30), Some (YMD 2024 1 31), Some (YMD 2024 2 1)]),
      (CLOSE, FloatS [Some 100, Some 110, Some 121])]"


definition scenario_returns :: dataframe where
  "scenario_returns =
     [(DATE, DateS [Some (YMD 2024 1 30), Some (YMD 2024 1 31), Some (YMD 2024 2 1)]),
      (CLOSE, FloatS [Some 100, Some 110, Some 121]),
      (RETURN, FloatS [None, Some (1 / 10), Some (1 / 10)])]"

definition scenario_cumulative :: dataframe where
  "scenario_cumulative =
     [(DATE, DateS [Some (YMD 2024 1 30), Some (YMD 2024 1 31), Some (YMD 2024 2 1)]),
      (RETURN, FloatS [None, Some (1 / 10), Some (1 / 10)]),
      (CUMULATIVE_RETURN, FloatS [None, Some (11 / 10), Some (121 / 100)])]"

section \<open>The metrics in the spec's words\<close>

text \<open>The running product of \<open>1 + return\<close>: at a row whose return is
  present, the product over the returns present up to and including that row; null at a
  row whose return is null.\<close>

definition running_product :: "real option list \<Rightarrow> nat \<Rightarrow> real option" where
  "running_product r i =
     (case r ! i of
        None \<Rightarrow> None
      | Some x \<Rightarrow> Some (prod_list (map (\<lambda>y. 1 + y) (drop_nulls (take (Suc i) r)))))"

text \<open>A polars cell as the Python value \<open>item\<close> returns for it.\<close>

definition py_of :: "real option \<Rightarrow> pyval" where
  "py_of v = (case v of None \<Rightarrow> PyNone | Some x \<Rightarrow> PyFloat x)"

text \<open>The running maximum of a column: at a row that is present, the greatest value
  present up to and including that row.\<close>

definition running_maximum :: "real option list \<Rightarrow> nat \<Rightarrow> real option" where
  "running_maximum cs i =
     (case cs ! i of
        None \<Rightarrow> None
      | Some c \<Rightarrow> Some (Max (set (drop_nulls (take (Suc i) cs)))))"

text \<open>The drawdown of a row: \<open>cumulative / running_max - 1\<close>.\<close>

definition drawdown_row :: "real option list \<Rightarrow> nat \<Rightarrow> real option" where
  "drawdown_row cs i =
     (case (cs ! i, running_maximum cs i) of
        (Some c, Some m) \<Rightarrow> Some (c / m - 1)
      | _ \<Rightarrow> None)"

text \<open>The per-row drawdowns of a column of returns, over its running products.\<close>

definition drawdown_rows :: "real option list \<Rightarrow> real option list" where
  "drawdown_rows r =
     (let cs = map (running_product r) [0..<length r]
      in map (drawdown_row cs) [0..<length r])"


text \<open>The maximum of a column as Python reads it: \<open>None\<close> when no cell is present.\<close>

definition maximum_of :: "real option list \<Rightarrow> pyval" where
  "maximum_of xs =
     (case drop_nulls xs of [] \<Rightarrow> PyNone | y # ys \<Rightarrow> PyFloat (Max (set (y # ys))))"

text \<open>The sum of \<open>return - risk_free_rate\<close> over the rows with
  \<open>return < risk_free_rate\<close>.\<close>

definition downside_excess :: "real option list \<Rightarrow> real \<Rightarrow> real" where
  "downside_excess r rf = sum_list (map (\<lambda>x. x - rf) (filter (\<lambda>x. x < rf) (drop_nulls r)))"


section \<open>More reference data\<close>

text \<open>The returns of the scenario "prices = [100, 90, 99]"; a price table of one row and
  its returns; a price table of two rows and its returns; a frame of returns below -1; and
  a constant price series, the same prices held as integers, and the same prices beside a
  column of returns.\<close>

definition drawdown_returns :: dataframe where
  "drawdown_returns =
     [(DATE, DateS [Some (YMD 2024 1 30), Some (YMD 2024 1 31), Some (YMD 2024 2 1)]),
      (CLOSE, FloatS [Some 100, Some 90, Some 99]),
      (RETURN, FloatS [None, Some (- (1 / 10)), Some (1 / 10)])]"



definition pair_prices :: dataframe where
  "pair_prices =
     [(DATE, DateS [Some (YMD 2024 1 30), Some (YMD 2024 1 31)]),
      (CLOSE, FloatS [Some 100, Some 110])]"

definition pair_returns :: dataframe where
  "pair_returns =
     [(DATE, DateS [Some (YMD 2024 1 30), Some (YMD 2024 1 31)]),
      (CLOSE, FloatS [Some 100, Some 110]),
      (RETURN, FloatS [None, Some (1 / 10)])]"





section \<open>Frames: lookup and update\<close>







section \<open>\<open>simple_returns\<close> on a price table\<close>












lemma simple_returns_scenario:
  "simple_returns scenario_prices = Inr scenario_returns"
  by (simp add: simple_returns_def scenario_prices_def scenario_returns_def numeric_columns_def
      select_def get_column_def get_float_def new_frame_def with_columns_def
      sub_lit_def div_s_def shift1_def)

lemma cumulative_returns_scenario:
  "cumulative_returns scenario_returns = Inr scenario_cumulative"
  by (simp add: cumulative_returns_def scenario_returns_def scenario_cumulative_def
      get_column_def get_float_def new_frame_def cum_prod_def add_lit_def)

section \<open>Claims about \<open>simple_returns\<close>\<close>







section \<open>Claims about \<open>aggregate_returns\<close>\<close>




section \<open>Claims about \<open>cumulative_returns\<close>\<close>

lemma length_cum_agg:
  "length (cum_agg f st xs) = length xs"
  by (induction f st xs rule: cum_agg.induct) simp_all

lemma drop_nulls_map:
  "drop_nulls (map (map_option f) xs) = map f (drop_nulls xs)"
  by (induction xs rule: drop_nulls.induct) simp_all

lemma cum_agg_times_unit:
  "cum_agg (\<lambda>a x. a * x) None xs = cum_agg (\<lambda>a x. a * x) (Some 1) xs"
  by (induction xs rule: drop_nulls.induct) simp_all

lemma cum_agg_times_nth:
  "i < length xs \<Longrightarrow>
     cum_agg (\<lambda>a x. a * x) (Some a) xs ! i =
       (case xs ! i of
          None \<Rightarrow> None
        | Some x \<Rightarrow> Some (a * prod_list (drop_nulls (take (Suc i) xs))))"
proof (induction xs arbitrary: a i)
  case Nil
  then show ?case by simp
next
  case (Cons x xs)
  show ?case
  proof (cases i)
    case 0
    then show ?thesis by (cases x) simp_all
  next
    case (Suc j)
    with Cons.prems have j: "j < length xs" by simp
    show ?thesis
    proof (cases x)
      case None
      with Suc Cons.IH[OF j, of a] show ?thesis by (simp split: option.splits)
    next
      case (Some y)
      with Suc Cons.IH[OF j, of "a * y"] show ?thesis
        by (simp add: mult.assoc split: option.splits)
    qed
  qed
qed

lemma cum_prod_nth:
  assumes "i < length r"
  shows "cum_prod (add_lit 1 r) ! i = running_product r i"
proof -
  have "take (Suc i) (add_lit 1 r) = map (map_option (\<lambda>x. 1 + x)) (take (Suc i) r)"
    by (simp add: add_lit_def take_map)
  then have "drop_nulls (take (Suc i) (add_lit 1 r)) = map (\<lambda>x. 1 + x) (drop_nulls (take (Suc i) r))"
    by (simp add: drop_nulls_map)
  moreover have "i < length (add_lit 1 r)" using assms by (simp add: add_lit_def)
  ultimately show ?thesis
    using assms
    by (simp add: cum_prod_def cum_agg_times_unit cum_agg_times_nth running_product_def)
       (simp add: add_lit_def split: option.splits)
qed

lemma length_cum_prod:
  "length (cum_prod (add_lit 1 r)) = length r"
  by (simp add: cum_prod_def length_cum_agg add_lit_def)

lemma cumulative_returns_frame:
  assumes "get_column rs DATE = Inr d" and "get_column rs RETURN = Inr (FloatS r)"
  shows "cumulative_returns rs =
           Inr [(DATE, d), (RETURN, FloatS r), (CUMULATIVE_RETURN, FloatS (cum_prod (add_lit 1 r)))]"
  using assms by (simp add: cumulative_returns_def get_float_def new_frame_def)

text \<open>
  Claim C2. For a frame with a \<open>date\<close> column and a Float64 \<open>return\<close> column,
  \<open>cumulative_returns\<close> returns those two columns as they are, in the rows' order,
  and a column \<open>cumulative_return\<close> of the same length holding the running product of
  \<open>1 + return\<close>.
\<close>

theorem cumulative_returns_running_product:
  assumes "get_column rs DATE = Inr d" and "get_column rs RETURN = Inr (FloatS r)"
  shows "\<exists>cum. cumulative_returns rs =
                  Inr [(DATE, d), (RETURN, FloatS r), (CUMULATIVE_RETURN, FloatS cum)] \<and>
               length cum = length r \<and>
               (\<forall>i. i < length r \<longrightarrow> cum ! i = running_product r i)"
proof -
  have "\<forall>i. i < length r \<longrightarrow> cum_prod (add_lit 1 r) ! i = running_product r i"
    by (simp add: cum_prod_nth)
  with cumulative_returns_frame[OF assms] length_cum_prod[of r] show ?thesis
    by (intro exI[of _ "cum_prod (add_lit 1 r)"] conjI)
qed

theorem cumulative_returns_running_product_witness:
  "get_column scenario_returns DATE =
     Inr (DateS [Some (YMD 2024 1 30), Some (YMD 2024 1 31), Some (YMD 2024 2 1)]) \<and>
   get_column scenario_returns RETURN = Inr (FloatS [None, Some (1 / 10), Some (1 / 10)]) \<and>
   (\<exists>cum. cumulative_returns scenario_returns =
            Inr [(DATE, DateS [Some (YMD 2024 1 30), Some (YMD 2024 1 31), Some (YMD 2024 2 1)]),
                 (RETURN, FloatS [None, Some (1 / 10), Some (1 / 10)]),
                 (CUMULATIVE_RETURN, FloatS cum)] \<and>
          length cum = 3 \<and> cum ! 0 = None \<and> cum ! 1 = Some (11 / 10) \<and>
          cum ! 2 = Some (121 / 100))"
proof -
  let ?d = "DateS [Some (YMD 2024 1 30), Some (YMD 2024 1 31), Some (YMD 2024 2 1)]"
  let ?r = "[None, Some (1 / 10), Some (1 / 10 :: real)]"
  have d: "get_column scenario_returns DATE = Inr ?d"
    by (simp add: scenario_returns_def get_column_def)
  have r: "get_column scenario_returns RETURN = Inr (FloatS ?r)"
    by (simp add: scenario_returns_def get_column_def)
  from cumulative_returns_running_product[OF d r] obtain cum where
    c: "cumulative_returns scenario_returns =
          Inr [(DATE, ?d), (RETURN, FloatS ?r), (CUMULATIVE_RETURN, FloatS cum)]"
    and l: "length cum = length ?r"
    and n: "\<forall>i. i < length ?r \<longrightarrow> cum ! i = running_product ?r i"
    by (elim exE conjE)
  from l have l3: "length cum = 3" by simp
  from n[rule_format, of 0] have c0: "cum ! 0 = None"
    by (simp add: running_product_def)
  from n[rule_format, of 1] have c1: "cum ! 1 = Some (11 / 10)"
    by (simp add: running_product_def)
  from n[rule_format, of 2] have c2: "cum ! 2 = Some (121 / 100)"
    by (simp add: running_product_def eval_nat_numeral)
  show ?thesis
    by (intro conjI exI[of _ cum] d r c l3 c0 c1 c2)
qed

section \<open>Claims about \<open>max_drawdown\<close>\<close>

lemma max_drawdown_unfold:
  assumes "get_column rs DATE = Inr d" and "get_column rs RETURN = Inr (FloatS r)"
  shows "max_drawdown rs =
           Inr (py_of (max_agg (sub_lit (div_s (cum_prod (add_lit 1 r))
                                  (cum_max (cum_prod (add_lit 1 r)))) 1)))"
  by (simp add: max_drawdown_def cumulative_returns_frame[OF assms] get_float_def
      get_column_def new_frame_def Let_def py_of_def split: option.splits)

lemma cum_agg_max_Some_nth:
  "i < length xs \<Longrightarrow>
     cum_agg max (Some a) xs ! i =
       (case xs ! i of
          None \<Rightarrow> None
        | Some x \<Rightarrow> Some (Max (insert a (set (drop_nulls (take (Suc i) xs))))))"
proof (induction xs arbitrary: a i)
  case Nil
  then show ?case by simp
next
  case (Cons x xs)
  show ?case
  proof (cases i)
    case 0
    then show ?thesis by (cases x) (simp_all add: max.commute)
  next
    case (Suc j)
    with Cons.prems have j: "j < length xs" by simp
    show ?thesis
    proof (cases x)
      case None
      with Suc Cons.IH[OF j, of a] show ?thesis by (simp split: option.splits)
    next
      case (Some y)
      have "Max (insert (max a y) S) = Max (insert a (insert y S))" if "finite S" for S
        using that by (cases "S = {}") (simp_all add: max.assoc)
      with Some Suc Cons.IH[OF j, of "max a y"] show ?thesis
        by (simp split: option.splits)
    qed
  qed
qed

lemma cum_max_nth:
  "i < length xs \<Longrightarrow> cum_max xs ! i = running_maximum xs i"
  unfolding cum_max_def running_maximum_def
proof (induction xs arbitrary: i)
  case Nil
  then show ?case by simp
next
  case (Cons x xs)
  show ?case
  proof (cases i)
    case 0
    then show ?thesis by (cases x) simp_all
  next
    case (Suc j)
    with Cons.prems have j: "j < length xs" by simp
    show ?thesis
    proof (cases x)
      case None
      with Suc Cons.IH[OF j] show ?thesis by (simp split: option.splits)
    next
      case (Some y)
      with Suc cum_agg_max_Some_nth[OF j, of y] show ?thesis
        by (simp split: option.splits)
    qed
  qed
qed

lemma cum_prod_running:
  "cum_prod (add_lit 1 r) = map (running_product r) [0..<length r]"
  by (rule nth_equalityI) (simp_all add: length_cum_prod cum_prod_nth)

lemma drawdown_pipeline:
  "sub_lit (div_s (cum_prod (add_lit 1 r)) (cum_max (cum_prod (add_lit 1 r)))) 1 =
     drawdown_rows r"
proof (rule nth_equalityI)
  let ?cs = "cum_prod (add_lit 1 r)"
  have l: "length ?cs = length r" by (rule length_cum_prod)
  have lm: "length (cum_max ?cs) = length r"
    by (simp add: cum_max_def length_cum_agg l)
  show len: "length (sub_lit (div_s ?cs (cum_max ?cs)) 1) = length (drawdown_rows r)"
    by (simp add: sub_lit_def div_s_def l lm drawdown_rows_def Let_def)
  fix i assume "i < length (sub_lit (div_s ?cs (cum_max ?cs)) 1)"
  then have i: "i < length r" by (simp add: sub_lit_def div_s_def l lm)
  then have ic: "i < length ?cs" by (simp add: l)
  have "sub_lit (div_s ?cs (cum_max ?cs)) 1 ! i =
          map_option (\<lambda>q. q - 1) (div_cell (?cs ! i) (running_maximum ?cs i))"
    using i by (simp add: sub_lit_def div_s_def l lm cum_max_nth[OF ic])
  also have "\<dots> = drawdown_row ?cs i"
    by (cases "?cs ! i"; cases "running_maximum ?cs i") (simp_all add: drawdown_row_def)
  also have "\<dots> = drawdown_rows r ! i"
    using i by (simp add: drawdown_rows_def Let_def cum_prod_running)
  finally show "sub_lit (div_s ?cs (cum_max ?cs)) 1 ! i = drawdown_rows r ! i" .
qed

lemma fold_max_Max:
  "fold max ys (y::real) = Max (insert y (set ys))"
  using Max.set_eq_fold[of y ys] by simp

lemma py_of_max_agg:
  "py_of (max_agg xs) = maximum_of xs"
  by (simp add: py_of_def max_agg_def maximum_of_def fold_max_Max split: list.splits)

lemma max_drawdown_rows:
  assumes "get_column rs DATE = Inr d" and "get_column rs RETURN = Inr (FloatS r)"
  shows "max_drawdown rs = Inr (maximum_of (drawdown_rows r))"
  by (simp add: max_drawdown_unfold[OF assms] drawdown_pipeline py_of_max_agg)

lemma set_drop_nulls:
  "set (drop_nulls xs) = {x. Some x \<in> set xs}"
  by (induction xs rule: drop_nulls.induct) auto

lemma prod_list_positive:
  "(\<And>x. x \<in> set xs \<Longrightarrow> 0 < (x::real)) \<Longrightarrow> 0 < prod_list xs"
  by (induction xs) simp_all

lemma running_product_positive:
  assumes "list_all (\<lambda>x. - 1 < x) (drop_nulls r)" and "i < length r"
  shows "running_product r i = None \<longleftrightarrow> r ! i = None"
    and "running_product r i = Some p \<Longrightarrow> 0 < p"
proof -
  show "running_product r i = None \<longleftrightarrow> r ! i = None"
    by (simp add: running_product_def split: option.splits)
  assume p: "running_product r i = Some p"
  have "0 < y" if "y \<in> set (map (\<lambda>y. 1 + y) (drop_nulls (take (Suc i) r)))" for y
  proof -
    from that obtain x where x: "y = 1 + x" "Some x \<in> set (take (Suc i) r)"
      by (auto simp: set_drop_nulls)
    from x(2) have "Some x \<in> set r" by (rule in_set_takeD)
    then have "x \<in> set (drop_nulls r)" by (simp add: set_drop_nulls)
    with assms(1) have "- 1 < x" by (simp add: list_all_iff)
    with x(1) show ?thesis by simp
  qed
  then have "0 < prod_list (map (\<lambda>y. 1 + y) (drop_nulls (take (Suc i) r)))"
    by (rule prod_list_positive)
  with p show "0 < p" by (auto simp: running_product_def split: option.splits)
qed

lemma drawdown_rows_nth:
  assumes pos: "list_all (\<lambda>x. - 1 < x) (drop_nulls r)" and i: "i < length r"
  shows "(drawdown_rows r ! i = None \<longleftrightarrow> r ! i = None) \<and>
         (\<forall>v. drawdown_rows r ! i = Some v \<longrightarrow> v \<le> 0)"
proof -
  let ?cs = "map (running_product r) [0..<length r]"
  have ci: "?cs ! i = running_product r i" using i by simp
  have dd: "drawdown_rows r ! i = drawdown_row ?cs i"
    using i by (simp add: drawdown_rows_def Let_def)
  show ?thesis
  proof (cases "running_product r i")
    case None
    with running_product_positive(1)[OF pos i] ci dd show ?thesis
      by (simp add: drawdown_row_def)
  next
    case (Some c)
    with running_product_positive[OF pos i] have ri: "r ! i \<noteq> None" and c: "0 < c" by simp_all
    let ?S = "set (drop_nulls (take (Suc i) ?cs))"
    have "Some c \<in> set (take (Suc i) ?cs)"
      using i ci Some by (auto simp: in_set_conv_nth intro!: exI[of _ i])
    then have cS: "c \<in> ?S" by (simp add: set_drop_nulls)
    then have le: "c \<le> Max ?S" by simp
    with c have m: "0 < Max ?S" by simp
    have rm: "running_maximum ?cs i = Some (Max ?S)"
      using ci Some by (simp add: running_maximum_def)
    have v: "drawdown_row ?cs i = Some (c / Max ?S - 1)"
      using ci Some rm by (simp add: drawdown_row_def)
    from le m have "c / Max ?S \<le> 1" by (simp add: divide_le_eq_1_pos)
    with v dd ri show ?thesis by simp
  qed
qed


lemma length_drawdown_rows:
  "length (drawdown_rows r) = length r"
  by (simp add: drawdown_rows_def Let_def)


lemmas frame_eval =
  simple_returns_def cumulative_returns_def max_drawdown_def numeric_columns_def select_def
  get_column_def get_float_def new_frame_def with_columns_def sub_lit_def div_s_def shift1_def
  add_lit_def cum_prod_def cum_max_def max_agg_def








text \<open>
  The first row whose return is present is its own running maximum, so its drawdown is 0:
  when every return exceeds -1 and one is present, the maximum is exactly 0.
\<close>

lemma first_drawdown_zero:
  "list_all (\<lambda>x. - 1 < x) (drop_nulls r) \<Longrightarrow> drop_nulls r \<noteq> [] \<Longrightarrow>
     0 \<in> set (drop_nulls (sub_lit (div_s (cum_prod (add_lit 1 r))
                                 (cum_max (cum_prod (add_lit 1 r)))) 1))"
  by (induction r rule: drop_nulls.induct)
     (simp_all add: sub_lit_def div_s_def cum_prod_def cum_max_def add_lit_def)

lemma max_drawdown_zero:
  assumes d: "get_column rs DATE = Inr d"
    and r: "get_column rs RETURN = Inr (FloatS r)"
    and pos: "list_all (\<lambda>x. - 1 < x) (drop_nulls r)"
    and ne: "drop_nulls r \<noteq> []"
  shows "max_drawdown rs = Inr (PyFloat 0)"
proof -
  let ?ys = "drop_nulls (drawdown_rows r)"
  have zero: "0 \<in> set ?ys"
    using first_drawdown_zero[OF pos ne] by (simp add: drawdown_pipeline)
  have le: "y \<le> 0" if "y \<in> set ?ys" for y
  proof -
    from that have "Some y \<in> set (drawdown_rows r)" by (simp add: set_drop_nulls)
    then obtain i where "i < length r" "drawdown_rows r ! i = Some y"
      by (auto simp: in_set_conv_nth length_drawdown_rows)
    with drawdown_rows_nth[OF pos, of i] show ?thesis by simp
  qed
  have "Max (set ?ys) = 0"
    by (rule Max_eqI) (simp_all add: le zero)
  moreover from zero obtain y ys where "?ys = y # ys" by (cases ?ys) auto
  ultimately have "maximum_of (drawdown_rows r) = PyFloat 0"
    by (simp add: maximum_of_def)
  with max_drawdown_rows[OF d r] show ?thesis by simp
qed

section \<open>Claims about a constant price series\<close>














section \<open>Claims about \<open>omega_ratio\<close>\<close>

lemma annualization_faactor_nonzero:
  "annualization_faactor period \<noteq> 0"
  by (cases period) simp_all

lemma annual_volatility_value:
  assumes "get_column rs RETURN = Inr (FloatS r)"
  shows "annual_volatility rs period =
           (case std_agg r of
              None \<Rightarrow> Inl TypeError
            | Some s \<Rightarrow> Inr (PyFloat (s * sqrt (real_of_int (annualization_faactor period)))))"
  using assms
  by (simp add: annual_volatility_def get_float_def new_frame_def get_column_def Let_def
      split: option.splits)

lemma annual_volatility_defined:
  assumes "get_column rs RETURN = Inr (FloatS r)"
  shows "(\<exists>v. annual_volatility rs period = Inr v) \<longleftrightarrow> 2 \<le> length (drop_nulls r)"
  by (auto simp: annual_volatility_value[OF assms] std_agg_def Let_def split: option.splits)

lemma drop_nulls_downside:
  "drop_nulls (filter_s (sub_lit r rf) (lt_lit r rf)) =
     map (\<lambda>x. x - rf) (filter (\<lambda>x. x < rf) (drop_nulls r))"
  by (induction r rule: drop_nulls.induct) (simp_all add: filter_s_def sub_lit_def lt_lit_def)

text \<open>
  Claim C8. For a frame with a Float64 \<open>return\<close> column on which
  \<open>annual_volatility\<close> returns a number other than 0, \<open>omega_ratio\<close> returns the
  sum of \<open>return - risk_free_rate\<close> over the rows with \<open>return < risk_free_rate\<close>,
  divided by the annualization factor of the period, divided by that annual volatility.
\<close>

theorem omega_ratio_formula:
  assumes r: "get_column rs RETURN = Inr (FloatS r)"
    and vol: "annual_volatility rs period = Inr (PyFloat vol)"
    and nz: "vol \<noteq> 0"
  shows "omega_ratio rs rf period =
           Inr (PyFloat (downside_excess r rf / real_of_int (annualization_faactor period) / vol))"
  using r vol nz annualization_faactor_nonzero[of period]
  by (simp add: omega_ratio_def get_float_def new_frame_def get_column_def Let_def sum_agg_def
      drop_nulls_downside downside_excess_def)

theorem omega_ratio_formula_witness:
  "get_column drawdown_returns RETURN = Inr (FloatS [None, Some (- (1 / 10)), Some (1 / 10)]) \<and>
   (\<exists>vol. annual_volatility drawdown_returns DAY = Inr (PyFloat vol) \<and> vol \<noteq> 0 \<and>
      omega_ratio drawdown_returns 0 DAY = Inr (PyFloat (- (1 / 10) / 252 / vol)))"
proof -
  let ?r = "[None, Some (- (1 / 10)), Some (1 / 10 :: real)]"
  have r: "get_column drawdown_returns RETURN = Inr (FloatS ?r)"
    by (simp add: drawdown_returns_def get_column_def)
  obtain s where s: "std_agg ?r = Some s" and s0: "s \<noteq> 0"
    by (simp add: std_agg_def mean_def)
  let ?vol = "s * sqrt (real_of_int (annualization_faactor DAY))"
  have vol: "annual_volatility drawdown_returns DAY = Inr (PyFloat ?vol)"
    by (simp add: annual_volatility_value[OF r] s)
  have nz: "?vol \<noteq> 0" using s0 by simp
  have de: "downside_excess ?r 0 = - (1 / 10)"
    by (simp add: downside_excess_def)
  from omega_ratio_formula[OF r vol nz, of 0]
  have "omega_ratio drawdown_returns 0 DAY = Inr (PyFloat (- (1 / 10) / 252 / ?vol))"
    by (simp add: de)
  with r vol nz show ?thesis
    by (intro conjI exI[of _ ?vol])
qed

text \<open>
  With fewer than two returns present the standard deviation is null and
  \<open>annual_volatility\<close> raises \<open>TypeError\<close>; with equal returns it is 0 and the
  final division raises \<open>ZeroDivisionError\<close>.
\<close>

theorem omega_ratio_counterexample:
  "simple_returns pair_prices = Inr pair_returns \<and>
   omega_ratio pair_returns 0 DAY = Inl TypeError \<and>
   simple_returns scenario_prices = Inr scenario_returns \<and>
   omega_ratio scenario_returns 0 DAY = Inl ZeroDivisionError"
proof -
  have 1: "simple_returns pair_prices = Inr pair_returns"
    by (simp add: frame_eval pair_prices_def pair_returns_def)
  have r2: "get_column pair_returns RETURN = Inr (FloatS [None, Some (1 / 10)])"
    by (simp add: pair_returns_def get_column_def)
  have v2: "annual_volatility pair_returns DAY = Inl TypeError"
    by (simp add: annual_volatility_value[OF r2] std_agg_def)
  have 2: "omega_ratio pair_returns 0 DAY = Inl TypeError"
    using r2
    by (simp add: omega_ratio_def get_float_def new_frame_def get_column_def v2 sum_agg_def)
  have r3: "get_column scenario_returns RETURN = Inr (FloatS [None, Some (1 / 10), Some (1 / 10)])"
    by (simp add: scenario_returns_def get_column_def)
  have v3: "annual_volatility scenario_returns DAY = Inr (PyFloat 0)"
    by (simp add: annual_volatility_value[OF r3] std_agg_def mean_def)
  have 3: "omega_ratio scenario_returns 0 DAY = Inl ZeroDivisionError"
    using r3 by (simp add: omega_ratio_def get_float_def new_frame_def get_column_def v3 sum_agg_def)
  from 1 2 simple_returns_scenario 3 show ?thesis by (intro conjI)
qed

section \<open>Claims the code does not meet\<close>

text \<open>
  Claim C3. \<open>cumulative_return_final\<close> is meant to return the product of
  \<open>1 + cumulative_return\<close> over all rows. It computes that product under the name
  \<open>cumulative_return_final\<close> and then reads the column \<open>cumulative_return\<close> of the
  one-column result, which raises \<open>ColumnNotFoundError\<close>: here on the cumulative returns
  of the scenario.
\<close>

theorem cumulative_return_final_scenario:
  "cumulative_returns scenario_returns = Inr scenario_cumulative \<and>
   cumulative_return_final scenario_cumulative = Inl (ColumnNotFoundError CUMULATIVE_RETURN)"
  by (simp add: cumulative_returns_scenario)
     (simp add: cumulative_return_final_def scenario_cumulative_def get_float_def get_column_def
        new_frame_def)

lemma cumulative_return_final_raises:
  "\<exists>e. cumulative_return_final df = Inl e"
proof (cases "get_float df CUMULATIVE_RETURN")
  case (Inl e)
  then show ?thesis by (simp add: cumulative_return_final_def)
next
  case (Inr c)
  then show ?thesis
    by (simp add: cumulative_return_final_def new_frame_def get_column_def)
qed

text \<open>
  Claim C5. \<open>compound_annual_growth_rate\<close> is meant to return
  \<open>ending_value ** (1 / num_years) - 1\<close>. On the returns of the scenario it raises:
  \<open>simple_returns.count()\<close> is a frame of one row and three columns, and \<open>item\<close>
  accepts a 1 x 1 frame only.
\<close>

theorem compound_annual_growth_rate_scenario:
  "simple_returns scenario_prices = Inr scenario_returns \<and>
   compound_annual_growth_rate scenario_returns DAY = Inl ValueError_item"
  by (simp add: simple_returns_scenario)
     (simp add: compound_annual_growth_rate_def scenario_returns_def count_def)

lemma compound_annual_growth_rate_raises:
  "\<exists>e. compound_annual_growth_rate df period = Inl e"
proof (cases "bnd (item (count df)) (\<lambda>n. py_truediv n (PyInt (annualization_faactor period)))")
  case (Inl e)
  then show ?thesis
    by (cases "item (count df)") (simp_all add: compound_annual_growth_rate_def Let_def)
next
  case (Inr y)
  then obtain n where n: "item (count df) = Inr n"
    and y: "py_truediv n (PyInt (annualization_faactor period)) = Inr y"
    by (cases "item (count df)") simp_all
  show ?thesis
  proof (cases "cumulative_returns df")
    case (Inl e)
    with n y show ?thesis by (simp add: compound_annual_growth_rate_def Let_def)
  next
    case (Inr cr)
    from cumulative_return_final_raises[of cr] obtain e where
      "cumulative_return_final cr = Inl e" ..
    with n y Inr show ?thesis by (simp add: compound_annual_growth_rate_def Let_def)
  qed
qed

text \<open>
  Claim C6. \<open>sharpe_ratio\<close> is meant to sum \<open>return - risk_free_rate\<close> over the rows
  of a frame produced by \<open>simple_returns\<close>. It reads the column \<open>simple_return\<close>, which
  such a frame does not have, and raises \<open>ColumnNotFoundError\<close>: here on the returns of
  the scenario.
\<close>

theorem sharpe_ratio_scenario:
  "simple_returns scenario_prices = Inr scenario_returns \<and>
   sharpe_ratio scenario_returns 0 DAY = Inl (ColumnNotFoundError ''simple_return'')"
  by (simp add: simple_returns_scenario)
     (simp add: sharpe_ratio_def scenario_returns_def get_float_def get_column_def)

end
